theory Spec2Isabelle
  imports Complex_Main
begin

section \<open>Numbers and text of the host language\<close>

text \<open>
  The engine of \<^verbatim>\<open>script.js\<close> computes with JavaScript numbers. A finite number is
  modelled by the real it denotes and arithmetic on finite numbers is exact: rounding
  error and overflow of the binary representation are outside this model. The one
  non-finite value the engine can produce from finite inputs is \<open>NaN\<close> (arithmetic on
  the \<^verbatim>\<open>undefined\<close> read from a missing property), so it is a value of its own.
  What is proved relates the values the engine holds to one another, by the operations
  the code applies; a concrete amount computed here is the exact one, which the
  engine's can miss by its rounding error (and so, next to a half cent, by a displayed
  cent).
\<close>

datatype jsnum = Num real | NaN

fun jadd :: "jsnum \<Rightarrow> jsnum \<Rightarrow> jsnum" where
  "jadd (Num a) (Num b) = Num (a + b)"
| "jadd _ _ = NaN"

fun jmul :: "jsnum \<Rightarrow> jsnum \<Rightarrow> jsnum" where
  "jmul (Num a) (Num b) = Num (a * b)"
| "jmul _ _ = NaN"

text \<open>
  Division is only ever applied to a divisor read from a truck profile; no profile
  holds zero (lemma \<open>fuel_efficiency_nonzero\<close> below), so the quotient of two finite
  numbers is the real quotient.
\<close>

fun jdiv :: "jsnum \<Rightarrow> jsnum \<Rightarrow> jsnum" where
  "jdiv (Num a) (Num b) = Num (a / b)"
| "jdiv _ _ = NaN"

text \<open>
  A string built by a template literal is a list of fragments. \<open>ToString x\<close> stands
  for the host's conversion of the number \<open>x\<close> to a string (\<^verbatim>\<open>${x}\<close>, and what
  \<^verbatim>\<open>toFixed\<close> returns for magnitudes of at least \<open>10^21\<close>), which is not computed
  here. \<open>ToStringGrouped x\<close> stands for that string after the separator replacement
  of \<^verbatim>\<open>formatETB\<close>, which can put commas into its digits; nothing is claimed about
  its characters.
\<close>

datatype fragment =
    Lit string
  | ToString real
  | ToStringGrouped real

type_synonym jstext = "fragment list"

subsection \<open>\<^verbatim>\<open>Number.prototype.toFixed(2)\<close>\<close>

definition digit_char :: "nat \<Rightarrow> char" where
  "digit_char d = ''0123456789'' ! d"

fun digits :: "nat \<Rightarrow> string" where
  "digits n = (if n < 10 then [digit_char n] else digits (n div 10) @ [digit_char (n mod 10)])"

declare digits.simps [simp del]

text \<open>
  For \<open>0 \<le> x < 10^21\<close>: the integer \<open>n\<close> with \<open>n / 100\<close> closest to \<open>x\<close>, the larger one
  on a tie; its decimal digits, padded with zeros to three; a point before the last
  two.
\<close>

definition fixed2_digits :: "real \<Rightarrow> string" where
  "fixed2_digits x =
     (let n = nat \<lfloor>x * 100 + 1 / 2\<rfloor>;
          m = digits n;
          m = (if length m \<le> 2 then replicate (3 - length m) (CHR ''0'') @ m else m);
          k = length m
      in take (k - 2) m @ ''.'' @ drop (k - 2) m)"

definition toFixed2 :: "real \<Rightarrow> fragment" where
  "toFixed2 x =
     (if 10 ^ 21 \<le> \<bar>x\<bar> then ToString x
      else if x < 0 then Lit (''-'' @ fixed2_digits (- x))
      else Lit (fixed2_digits x))"

subsection \<open>The thousands separator of \<^verbatim>\<open>formatETB\<close>\<close>

definition is_digit :: "char \<Rightarrow> bool" where
  "is_digit c = (c \<in> set ''0123456789'')"

definition is_word :: "char \<Rightarrow> bool" where
  "is_word c =
     (c \<in> set ''0123456789abcdefghijklmnopqrstuvwxyzABCDEFGHIJKLMNOPQRSTUVWXYZ_'')"

text \<open>\<^verbatim>\<open>(?=(\d{3})+(?!\d))\<close>: one or more groups of three digits, then no digit.\<close>

fun lookahead :: "string \<Rightarrow> bool" where
  "lookahead (a # b # c # rest) =
     (is_digit a \<and> is_digit b \<and> is_digit c \<and>
      ((case rest of [] \<Rightarrow> True | d # _ \<Rightarrow> \<not> is_digit d) \<or> lookahead rest))"
| "lookahead _ = False"

text \<open>\<^verbatim>\<open>\B\<close>: the characters on both sides are both word characters or both not.\<close>

definition non_boundary :: "char option \<Rightarrow> char option \<Rightarrow> bool" where
  "non_boundary prev nxt =
     ((case prev of None \<Rightarrow> False | Some p \<Rightarrow> is_word p) =
      (case nxt of None \<Rightarrow> False | Some c \<Rightarrow> is_word c))"

text \<open>
  \<^verbatim>\<open>.replace(/\B(?=(\d{3})+(?!\d))/g, ",")\<close>: a comma at every position where the
  empty match succeeds. \<open>prev\<close> is the character before the position.
\<close>

fun add_commas :: "char option \<Rightarrow> string \<Rightarrow> string" where
  "add_commas prev [] = []"
| "add_commas prev (c # cs) =
     (if non_boundary prev (Some c) \<and> lookahead (c # cs)
      then CHR '','' # c # add_commas (Some c) cs
      else c # add_commas (Some c) cs)"

fun formatETB :: "jsnum \<Rightarrow> fragment" where
  "formatETB NaN = Lit ''0.00''"
| "formatETB (Num amount) =
     (case toFixed2 amount of
        Lit s \<Rightarrow> Lit (add_commas None s)
      | ToString x \<Rightarrow> ToStringGrouped x
      | ToStringGrouped x \<Rightarrow> ToStringGrouped x)"

section \<open>Data configuration\<close>

definition EXPORT_DISCOUNT_FACTOR :: real where
  "EXPORT_DISCOUNT_FACTOR = 0.60"

definition OPTIMIZATION_DISCOUNT :: real where
  "OPTIMIZATION_DISCOUNT = 0.10"

record truck_profile =
  fuel_efficiency_km_l :: real
  capacity_teu :: nat
  type :: string

text \<open>
  \<^verbatim>\<open>TRUCK_PROFILES[truckType]\<close> is a property read on an object literal. It yields the
  profile stored under an own key, a member of \<^verbatim>\<open>Object.prototype\<close> for a name the
  object inherits, and \<^verbatim>\<open>undefined\<close> for every other name. The inherited names are
  those of the language standard and its annex on legacy features.
\<close>

datatype lookup = Undefined | Inherited | Profile truck_profile

definition object_prototype_names :: "string list" where
  "object_prototype_names =
     [''constructor'', ''hasOwnProperty'', ''isPrototypeOf'', ''propertyIsEnumerable'',
      ''toLocaleString'', ''toString'', ''valueOf'', ''__proto__'',
      ''__defineGetter__'', ''__defineSetter__'', ''__lookupGetter__'',
      ''__lookupSetter__'']"

definition TRUCK_PROFILES :: "string \<Rightarrow> lookup" where
  "TRUCK_PROFILES truckType =
     (if truckType = ''40FT_DRY_VAN'' then
        Profile \<lparr>fuel_efficiency_km_l = 2.78, capacity_teu = 2, type = ''General Cargo''\<rparr>
      else if truckType = ''40FT_REEFER'' then
        Profile \<lparr>fuel_efficiency_km_l = 2.5, capacity_teu = 2, type = ''Refrigerated Cargo''\<rparr>
      else if truckType = ''15MT_FLATBED'' then
        Profile \<lparr>fuel_efficiency_km_l = 3.2, capacity_teu = 0, type = ''Non-Containerized''\<rparr>
      else if truckType \<in> set object_prototype_names then Inherited
      else Undefined)"

section \<open>Core engine logic\<close>

datatype error = TypeError

subsection \<open>\<^verbatim>\<open>calculateTransportCost\<close>\<close>

record transport_result =
  fuelCostETB :: jsnum
  driverCostETB :: real
  truckRentETB :: real
  totalTransportCost :: jsnum
  totalLitersUsed :: jsnum

text \<open>
  \<^verbatim>\<open>truck.fuel_efficiency_km_l\<close>: reading a property of \<^verbatim>\<open>undefined\<close> throws a
  \<^verbatim>\<open>TypeError\<close>; an inherited member has no such property, the read gives
  \<^verbatim>\<open>undefined\<close> and the division by it gives \<open>NaN\<close>.
\<close>

fun read_fuel_efficiency :: "lookup \<Rightarrow> error + jsnum" where
  "read_fuel_efficiency Undefined = Inl TypeError"
| "read_fuel_efficiency Inherited = Inr NaN"
| "read_fuel_efficiency (Profile p) = Inr (Num (fuel_efficiency_km_l p))"

definition calculateTransportCost ::
  "real \<Rightarrow> string \<Rightarrow> real \<Rightarrow> real \<Rightarrow> real \<Rightarrow> real \<Rightarrow> error + transport_result" where
  "calculateTransportCost distanceKm truckType estimatedDays driverDailyWage fuelPrice
       truckRentalCost =
     (let truck = TRUCK_PROFILES truckType;
          daysToCharge = max 1 estimatedDays
      in case read_fuel_efficiency truck of
           Inl e \<Rightarrow> Inl e
         | Inr efficiency \<Rightarrow>
             (let totalLiters = jdiv (Num distanceKm) efficiency;
                  fuelCost = jmul totalLiters (Num fuelPrice);
                  driverCost = daysToCharge * driverDailyWage;
                  truckRent = daysToCharge * truckRentalCost;
                  total = jadd (jadd fuelCost (Num driverCost)) (Num truckRent)
              in Inr \<lparr>fuelCostETB = fuelCost, driverCostETB = driverCost,
                      truckRentETB = truckRent, totalTransportCost = total,
                      totalLitersUsed = totalLiters\<rparr>))"

subsection \<open>\<^verbatim>\<open>calculateCustomsDuty\<close>\<close>

record duty_result =
  dutyCost :: real
  dutyNotes :: jstext

definition calculateCustomsDuty :: "real \<Rightarrow> real \<Rightarrow> bool \<Rightarrow> duty_result" where
  "calculateCustomsDuty cifValue customsDutyRate isExport =
     (if \<not> isExport \<and> customsDutyRate > 0 then
        (let dutyFactor = customsDutyRate / 100
         in \<lparr>dutyCost = cifValue * dutyFactor,
             dutyNotes = [Lit ''Calculated on CIF Value ('', formatETB (Num cifValue),
                          Lit '' ETB) at '', ToString customsDutyRate, Lit ''%.'']\<rparr>)
      else \<lparr>dutyCost = 0,
            dutyNotes = [Lit ''Customs Duty applies only to Import/Local cargo.'']\<rparr>)"

subsection \<open>\<^verbatim>\<open>calculateTariffCost\<close>\<close>

record tariff =
  name :: string
  rate_birr :: real
  unit :: string
  free_days :: "real option"
  is_export_eligible :: bool

record breakdown_item =
  item_name :: string
  cost :: real
  item_notes :: jstext

record tariff_result =
  totalTariffCost :: real
  breakdown :: "breakdown_item list"

definition DYNAMIC_TARIFFS :: "real \<Rightarrow> real \<Rightarrow> tariff list" where
  "DYNAMIC_TARIFFS handlingCost inspectionFee =
     [\<lparr>name = ''Dry Port Handling (40ft)'', rate_birr = handlingCost,
       unit = ''per_container'', free_days = None, is_export_eligible = True\<rparr>,
      \<lparr>name = ''Customs Inspection Fee (Fixed)'', rate_birr = inspectionFee,
       unit = ''per_shipment'', free_days = None, is_export_eligible = False\<rparr>,
      \<lparr>name = ''Storage Penalty (40ft, per day after 8 days)'', rate_birr = 192.00,
       unit = ''per_day_after_free_period'', free_days = Some 8,
       is_export_eligible = False\<rparr>]"

text \<open>
  \<^verbatim>\<open>name.replace(/\s*\(.*\)/, '')\<close>: the leftmost match is removed. It starts with a
  run of white space followed by an opening parenthesis and ends at the last closing
  parenthesis of the same line.
\<close>

text \<open>White space and line ends, among the characters of a byte string.\<close>

definition is_space :: "char \<Rightarrow> bool" where
  "is_space c = (c \<in> set [CHR '' '', CHR 0x09, CHR 0x0A, CHR 0x0B, CHR 0x0C, CHR 0x0D])"

fun after_last_close :: "string \<Rightarrow> string option" where
  "after_last_close [] = None"
| "after_last_close (c # cs) =
     (if c = CHR 0x0A \<or> c = CHR 0x0D then None
      else case after_last_close cs of
             Some r \<Rightarrow> Some r
           | None \<Rightarrow> if c = CHR '')'' then Some cs else None)"

definition match_paren :: "string \<Rightarrow> string option" where
  "match_paren s =
     (case dropWhile is_space s of
        [] \<Rightarrow> None
      | c # body \<Rightarrow> if c = CHR ''('' then after_last_close body else None)"

fun clean_name :: "string \<Rightarrow> string" where
  "clean_name [] = (case match_paren [] of Some r \<Rightarrow> r | None \<Rightarrow> [])"
| "clean_name (c # cs) =
     (case match_paren (c # cs) of Some r \<Rightarrow> r | None \<Rightarrow> c # clean_name cs)"

declare clean_name.simps [simp del]

text \<open>
  The cost and note of one rule before the export discount. With no \<^verbatim>\<open>free_days\<close>
  the difference is \<open>NaN\<close>, which is not greater than zero.
\<close>

definition base_cost :: "real \<Rightarrow> tariff \<Rightarrow> real \<times> jstext" where
  "base_cost estimatedDays t =
     (if unit t = ''per_container'' \<or> unit t = ''per_shipment'' then
        (rate_birr t,
         if unit t = ''per_container'' then [Lit ''Base rate for 1 container.'']
         else [Lit ''Fixed mandatory fee.''])
      else if unit t = ''per_day_after_free_period'' then
        (case free_days t of
           None \<Rightarrow> (0, [Lit ''No penalty: Trip completed within the free period.''])
         | Some free \<Rightarrow>
             (let daysOverFreePeriod = max 0 (estimatedDays - free)
              in if daysOverFreePeriod > 0 then
                   (daysOverFreePeriod * rate_birr t,
                    [Lit ''Penalty applied for '', ToString daysOverFreePeriod,
                     Lit '' days over the '', ToString free, Lit ''-day free period.''])
                 else (0, [Lit ''No penalty: Trip completed within the free period.''])))
      else (0, []))"

definition final_cost :: "real \<Rightarrow> bool \<Rightarrow> tariff \<Rightarrow> real \<times> jstext" where
  "final_cost estimatedDays isExport t =
     (let discountMultiplier = (if isExport then 1 - EXPORT_DISCOUNT_FACTOR else 1);
          (cost, notes) = base_cost estimatedDays t
      in if isExport \<and> is_export_eligible t then
           (cost * discountMultiplier,
            notes @ [Lit '' EXPORT DISCOUNT Applied ('', ToString (EXPORT_DISCOUNT_FACTOR * 100),
                     Lit ''% off eligible items).''])
         else (cost, notes))"

text \<open>One turn of the loop over the rules, on the running total and the breakdown.\<close>

definition tariff_step :: "real \<Rightarrow> bool \<Rightarrow> tariff \<Rightarrow> tariff_result \<Rightarrow> tariff_result" where
  "tariff_step estimatedDays isExport t acc =
     (let (finalCost, notes) = final_cost estimatedDays isExport t
      in if finalCost > 0 \<or> rate_birr t > 0 then
           \<lparr>totalTariffCost = totalTariffCost acc + finalCost,
            breakdown = breakdown acc @
              [\<lparr>item_name = clean_name (name t), cost = finalCost, item_notes = notes\<rparr>]\<rparr>
         else acc)"

fun tariff_loop :: "real \<Rightarrow> bool \<Rightarrow> tariff list \<Rightarrow> tariff_result \<Rightarrow> tariff_result" where
  "tariff_loop estimatedDays isExport [] acc = acc"
| "tariff_loop estimatedDays isExport (t # ts) acc =
     tariff_loop estimatedDays isExport ts (tariff_step estimatedDays isExport t acc)"

definition calculateTariffCost :: "real \<Rightarrow> bool \<Rightarrow> real \<Rightarrow> real \<Rightarrow> tariff_result" where
  "calculateTariffCost estimatedDays isExport handlingCost inspectionFee =
     tariff_loop estimatedDays isExport (DYNAMIC_TARIFFS handlingCost inspectionFee)
       \<lparr>totalTariffCost = 0, breakdown = []\<rparr>"

subsection \<open>\<^verbatim>\<open>calculateTaxCost\<close>\<close>

record tax_result =
  vatCost :: jsnum
  whtCost :: jsnum
  totalTax :: jsnum

definition calculateTaxCost :: "jsnum \<Rightarrow> real \<Rightarrow> real \<Rightarrow> tax_result" where
  "calculateTaxCost transportSubtotal vatRate whtRate =
     (let vatFactor = vatRate / 100;
          whtFactor = whtRate / 100;
          vat = jmul transportSubtotal (Num vatFactor);
          wht = jmul transportSubtotal (Num whtFactor)
      in \<lparr>vatCost = vat, whtCost = wht, totalTax = jadd vat wht\<rparr>)"

subsection \<open>\<^verbatim>\<open>calculateTotalCost\<close>\<close>

record inputs =
  distanceKm :: real
  estimatedDays :: real
  truckType :: string
  isExport :: bool
  numStops :: real
  cifValue :: real
  customsDutyRate :: real
  driverCost :: real
  fuelPrice :: real
  truckRentalCost :: real
  vatRate :: real
  whtRate :: real
  handlingCost :: real
  inspectionFee :: real

record optimization_info =
  originalDistance :: real
  actualDistance :: real
  optimizationNotes :: jstext
  stops :: real

record calculation_result =
  totalOptimizedCost :: fragment
  transport :: transport_result
  tariffs :: tariff_result
  duty :: duty_result
  tax :: tax_result
  rates :: inputs
  optimization :: optimization_info
  isExportCargo :: bool

text \<open>Step 1 of the orchestrator: the distance charged and the note about it.\<close>

definition route_optimization :: "real \<Rightarrow> real \<Rightarrow> real \<times> jstext" where
  "route_optimization distance nStops =
     (if nStops \<ge> 3 then
        (let actualDistanceKm = distance * (1 - OPTIMIZATION_DISCOUNT)
         in (actualDistanceKm,
             [Lit ''Route Optimization Applied: Distance reduced by '',
              ToString (OPTIMIZATION_DISCOUNT * 100), Lit ''% (from '', ToString distance,
              Lit '' KM to '', toFixed2 actualDistanceKm, Lit '' KM) for '',
              ToString nStops, Lit '' delivery stops.'']))
      else (distance, [Lit ''No Route Optimization Applied.'']))"

text \<open>
  The messages written to the log are presentation and are left out; they do not
  influence the value returned. The sum before formatting is \<open>grand_total\<close>.
\<close>

definition grand_total :: "transport_result \<Rightarrow> tariff_result \<Rightarrow> duty_result \<Rightarrow> tax_result \<Rightarrow> jsnum" where
  "grand_total transportResults tariffResults dutyResults taxResults =
     (let transportSubtotal = totalTransportCost transportResults;
          tariffSubtotal = totalTariffCost tariffResults + dutyCost dutyResults
      in jadd (jadd transportSubtotal (Num tariffSubtotal)) (totalTax taxResults))"

definition calculateTotalCost :: "inputs \<Rightarrow> error + calculation_result" where
  "calculateTotalCost inp =
     (let (actualDistanceKm, optNotes) = route_optimization (distanceKm inp) (numStops inp)
      in case calculateTransportCost actualDistanceKm (truckType inp) (estimatedDays inp)
                (driverCost inp) (fuelPrice inp) (truckRentalCost inp) of
           Inl e \<Rightarrow> Inl e
         | Inr transportResults \<Rightarrow>
             (let tariffResults = calculateTariffCost (estimatedDays inp) (isExport inp)
                                    (handlingCost inp) (inspectionFee inp);
                  dutyResults = calculateCustomsDuty (cifValue inp) (customsDutyRate inp)
                                  (isExport inp);
                  taxResults = calculateTaxCost (totalTransportCost transportResults)
                                 (vatRate inp) (whtRate inp)
              in Inr \<lparr>totalOptimizedCost =
                        formatETB (grand_total transportResults tariffResults dutyResults
                                     taxResults),
                      transport = transportResults,
                      tariffs = tariffResults,
                      duty = dutyResults,
                      tax = taxResults,
                      rates = inp,
                      optimization =
                        \<lparr>originalDistance = distanceKm inp,
                         actualDistance = actualDistanceKm,
                         optimizationNotes = optNotes,
                         stops = numStops inp\<rparr>,
                      isExportCargo = isExport inp\<rparr>))"

subsection \<open>The caller: \<^verbatim>\<open>handleCalculation\<close> after the form has been read\<close>

text \<open>
  The fields of \<open>inputs\<close> are finite numbers, so the validation's test for \<open>NaN\<close>
  never fires here; what remains of it are the three bounds. Rendering the report does
  not fail, so the outcome is the engine's.
\<close>

datatype outcome = InputError | Report calculation_result | CriticalError error

definition handleCalculation :: "inputs \<Rightarrow> outcome" where
  "handleCalculation inp =
     (if distanceKm inp \<le> 0 \<or> estimatedDays inp \<le> 0 \<or> numStops inp < 1 then InputError
      else case calculateTotalCost inp of
             Inl e \<Rightarrow> CriticalError e
           | Inr results \<Rightarrow> Report results)"

section \<open>Concrete inputs\<close>

text \<open>The input of the end-to-end example.\<close>

definition example_inputs :: inputs where
  "example_inputs =
     \<lparr>distanceKm = 500, estimatedDays = 10, truckType = ''40FT_DRY_VAN'', isExport = False,
      numStops = 1, cifValue = 100000, customsDutyRate = 10, driverCost = 1000,
      fuelPrice = 50, truckRentalCost = 2000, vatRate = 15, whtRate = 2,
      handlingCost = 1500, inspectionFee = 500\<rparr>"

text \<open>What the engine returns on \<open>example_inputs\<close>, with every amount as an exact fraction.\<close>

definition example_result :: calculation_result where
  "example_result =
     \<lparr>totalOptimizedCost = Lit ''58,005.58'',
      transport =
        \<lparr>fuelCostETB = Num (1250000 / 139), driverCostETB = 10000, truckRentETB = 20000,
         totalTransportCost = Num (5420000 / 139), totalLitersUsed = Num (25000 / 139)\<rparr>,
      tariffs =
        \<lparr>totalTariffCost = 2384,
         breakdown =
           [\<lparr>item_name = ''Dry Port Handling'', cost = 1500,
             item_notes = [Lit ''Base rate for 1 container.'']\<rparr>,
            \<lparr>item_name = ''Customs Inspection Fee'', cost = 500,
             item_notes = [Lit ''Fixed mandatory fee.'']\<rparr>,
            \<lparr>item_name = ''Storage Penalty'', cost = 384,
             item_notes = [Lit ''Penalty applied for '', ToString 2, Lit '' days over the '',
                           ToString 8, Lit ''-day free period.'']\<rparr>]\<rparr>,
      duty =
        \<lparr>dutyCost = 10000,
         dutyNotes = [Lit ''Calculated on CIF Value ('', Lit ''100,000.00'', Lit '' ETB) at '',
                      ToString 10, Lit ''%.'']\<rparr>,
      tax =
        \<lparr>vatCost = Num (813000 / 139), whtCost = Num (108400 / 139),
         totalTax = Num (921400 / 139)\<rparr>,
      rates = example_inputs,
      optimization =
        \<lparr>originalDistance = 500, actualDistance = 500,
         optimizationNotes = [Lit ''No Route Optimization Applied.''], stops = 1\<rparr>,
      isExportCargo = False\<rparr>"

text \<open>The example with three delivery stops.\<close>

definition three_stop_inputs :: inputs where
  "three_stop_inputs = example_inputs\<lparr>numStops := 3\<rparr>"

text \<open>
  The example as an export with other tariff and duty inputs, and what the engine
  returns on it.
\<close>

definition export_inputs :: inputs where
  "export_inputs =
     example_inputs\<lparr>isExport := True, cifValue := 250000, customsDutyRate := 35,
                    handlingCost := 3000, inspectionFee := 0\<rparr>"

definition export_result :: calculation_result where
  "export_result =
     \<lparr>totalOptimizedCost = Lit ''47,205.58'',
      transport =
        \<lparr>fuelCostETB = Num (1250000 / 139), driverCostETB = 10000, truckRentETB = 20000,
         totalTransportCost = Num (5420000 / 139), totalLitersUsed = Num (25000 / 139)\<rparr>,
      tariffs =
        \<lparr>totalTariffCost = 1584,
         breakdown =
           [\<lparr>item_name = ''Dry Port Handling'', cost = 1200,
             item_notes = [Lit ''Base rate for 1 container.'',
                           Lit '' EXPORT DISCOUNT Applied ('', ToString 60,
                           Lit ''% off eligible items).'']\<rparr>,
            \<lparr>item_name = ''Storage Penalty'', cost = 384,
             item_notes = [Lit ''Penalty applied for '', ToString 2, Lit '' days over the '',
                           ToString 8, Lit ''-day free period.'']\<rparr>]\<rparr>,
      duty =
        \<lparr>dutyCost = 0,
         dutyNotes = [Lit ''Customs Duty applies only to Import/Local cargo.'']\<rparr>,
      tax =
        \<lparr>vatCost = Num (813000 / 139), whtCost = Num (108400 / 139),
         totalTax = Num (921400 / 139)\<rparr>,
      rates = export_inputs,
      optimization =
        \<lparr>originalDistance = 500, actualDistance = 500,
         optimizationNotes = [Lit ''No Route Optimization Applied.''], stops = 1\<rparr>,
      isExportCargo = True\<rparr>"

text \<open>The example with a truck type that names a member of \<^verbatim>\<open>Object.prototype\<close>.\<close>

definition inherited_name_inputs :: inputs where
  "inherited_name_inputs = example_inputs\<lparr>truckType := ''toString''\<rparr>"

text \<open>The example with a truck type that is no property of the table at all.\<close>

definition unknown_truck_inputs :: inputs where
  "unknown_truck_inputs = example_inputs\<lparr>truckType := ''50FT_TANKER''\<rparr>"



section \<open>The display format in the words of the specification\<close>





subsection \<open>Grouping from the left\<close>



section \<open>Evaluation lemmas\<close>

lemma digits_small: "n < 10 \<Longrightarrow> digits n = [digit_char n]"
  by (simp add: digits.simps)

lemma digits_large: "\<not> n < 10 \<Longrightarrow> digits n = digits (n div 10) @ [digit_char (n mod 10)]"
  by (subst digits.simps) simp

lemmas format_eval = toFixed2_def fixed2_digits_def digits_small digits_large digit_char_def
  is_digit_def is_word_def non_boundary_def Let_def

lemma clean_names:
  "clean_name ''Dry Port Handling (40ft)'' = ''Dry Port Handling''"
  "clean_name ''Customs Inspection Fee (Fixed)'' = ''Customs Inspection Fee''"
  "clean_name ''Storage Penalty (40ft, per day after 8 days)'' = ''Storage Penalty''"
  by (simp_all add: clean_name.simps match_paren_def is_space_def)

lemmas tariff_eval = calculateTariffCost_def DYNAMIC_TARIFFS_def tariff_step_def final_cost_def
  base_cost_def EXPORT_DISCOUNT_FACTOR_def clean_names

lemmas engine_eval = calculateTotalCost_def route_optimization_def calculateTransportCost_def
  TRUCK_PROFILES_def object_prototype_names_def tariff_eval calculateCustomsDuty_def
  calculateTaxCost_def grand_total_def OPTIMIZATION_DISCOUNT_def format_eval

lemma example_run: "calculateTotalCost example_inputs = Inr example_result"
  by (simp add: example_inputs_def example_result_def engine_eval)

section \<open>Additive consistency\<close>

text \<open>The loop keeps the running total equal to the sum of the costs listed so far.\<close>

lemma tariff_step_foldl:
  assumes "totalTariffCost acc = foldl (+) 0 (map cost (breakdown acc))"
  shows "totalTariffCost (tariff_step d e t acc) =
         foldl (+) 0 (map cost (breakdown (tariff_step d e t acc)))"
  using assms by (simp add: tariff_step_def split: prod.splits)

lemma tariff_loop_foldl:
  assumes "totalTariffCost acc = foldl (+) 0 (map cost (breakdown acc))"
  shows "totalTariffCost (tariff_loop d e ts acc) =
         foldl (+) 0 (map cost (breakdown (tariff_loop d e ts acc)))"
  using assms
proof (induction ts arbitrary: acc)
  case Nil
  then show ?case by simp
next
  case (Cons t ts)
  from Cons.prems have "totalTariffCost (tariff_step d e t acc) =
      foldl (+) 0 (map cost (breakdown (tariff_step d e t acc)))"
    by (rule tariff_step_foldl)
  then show ?case by (simp add: Cons.IH)
qed

lemma calculateTariffCost_total:
  "totalTariffCost (calculateTariffCost d e h i) =
   foldl (+) 0 (map cost (breakdown (calculateTariffCost d e h i)))"
  unfolding calculateTariffCost_def by (rule tariff_loop_foldl) simp

lemma calculateTransportCost_total:
  assumes "calculateTransportCost km ty days wage price rent = Inr t"
  shows "totalTransportCost t =
         jadd (jadd (fuelCostETB t) (Num (driverCostETB t))) (Num (truckRentETB t))"
  using assms
  by (auto simp: calculateTransportCost_def Let_def split: sum.splits)

lemma calculateTaxCost_total:
  "totalTax (calculateTaxCost sub v w) =
   jadd (vatCost (calculateTaxCost sub v w)) (whtCost (calculateTaxCost sub v w))"
  by (simp add: calculateTaxCost_def Let_def)

text \<open>What a successful run of the orchestrator is made of.\<close>

lemma calculateTotalCost_Inr:
  assumes "calculateTotalCost inp = Inr r"
  shows "calculateTransportCost (fst (route_optimization (distanceKm inp) (numStops inp)))
           (truckType inp) (estimatedDays inp) (driverCost inp) (fuelPrice inp)
           (truckRentalCost inp) = Inr (transport r)"
    and "tariffs r = calculateTariffCost (estimatedDays inp) (isExport inp) (handlingCost inp)
           (inspectionFee inp)"
    and "duty r = calculateCustomsDuty (cifValue inp) (customsDutyRate inp) (isExport inp)"
    and "tax r = calculateTaxCost (totalTransportCost (transport r)) (vatRate inp) (whtRate inp)"
    and "totalOptimizedCost r = formatETB (grand_total (transport r) (tariffs r) (duty r) (tax r))"
    and "actualDistance (optimization r) =
           fst (route_optimization (distanceKm inp) (numStops inp))"
    and "rates r = inp"
  using assms
  by (auto simp: calculateTotalCost_def Let_def split: prod.splits sum.splits)

text \<open>
  C1. Whenever the engine returns, the transport total is the sum of the fuel, driver
  and rental costs it reports, the tax total is the sum of the reported VAT and WHT,
  the tariff total is the sum, in order, of the costs in the breakdown list, and the
  total that is formatted for display is the transport subtotal plus the tariff total
  and duty plus the total tax, unrounded.
\<close>

theorem additive_consistency:
  assumes "calculateTotalCost inp = Inr r"
  shows "totalTransportCost (transport r) =
           jadd (jadd (fuelCostETB (transport r)) (Num (driverCostETB (transport r))))
             (Num (truckRentETB (transport r))) \<and>
         totalTax (tax r) = jadd (vatCost (tax r)) (whtCost (tax r)) \<and>
         totalTariffCost (tariffs r) = foldl (+) 0 (map cost (breakdown (tariffs r))) \<and>
         totalOptimizedCost r =
           formatETB (jadd (jadd (totalTransportCost (transport r))
                              (Num (totalTariffCost (tariffs r) + dutyCost (duty r))))
                        (totalTax (tax r)))"
proof -
  note parts = calculateTotalCost_Inr [OF assms]
  have "totalTransportCost (transport r) =
      jadd (jadd (fuelCostETB (transport r)) (Num (driverCostETB (transport r))))
        (Num (truckRentETB (transport r)))"
    using parts(1) by (rule calculateTransportCost_total)
  moreover have "totalTax (tax r) = jadd (vatCost (tax r)) (whtCost (tax r))"
    unfolding parts(4) by (rule calculateTaxCost_total)
  moreover have "totalTariffCost (tariffs r) = foldl (+) 0 (map cost (breakdown (tariffs r)))"
    unfolding parts(2) by (rule calculateTariffCost_total)
  moreover have "totalOptimizedCost r =
      formatETB (jadd (jadd (totalTransportCost (transport r))
                         (Num (totalTariffCost (tariffs r) + dutyCost (duty r))))
                   (totalTax (tax r)))"
    using parts(5) by (simp add: grand_total_def)
  ultimately show ?thesis by blast
qed

theorem additive_consistency_witness:
  "totalTransportCost (transport example_result) =
     jadd (jadd (fuelCostETB (transport example_result))
             (Num (driverCostETB (transport example_result))))
       (Num (truckRentETB (transport example_result))) \<and>
   totalTax (tax example_result) =
     jadd (vatCost (tax example_result)) (whtCost (tax example_result)) \<and>
   totalTariffCost (tariffs example_result) =
     foldl (+) 0 (map cost (breakdown (tariffs example_result))) \<and>
   totalOptimizedCost example_result =
     formatETB (jadd (jadd (totalTransportCost (transport example_result))
                        (Num (totalTariffCost (tariffs example_result) +
                              dutyCost (duty example_result))))
                  (totalTax (tax example_result)))"
  by (rule additive_consistency [OF example_run])

section \<open>The end-to-end example\<close>

text \<open>
  C2, as stated: on the example input the displayed grand total would be 57,005.59.
  The engine displays 58,005.58, and the unrounded total 8062776 / 139 is more than
  999 away from 57005.59.
\<close>

theorem end_to_end_total_counterexample:
  "calculateTotalCost example_inputs = Inr example_result \<and>
   totalOptimizedCost example_result = Lit ''58,005.58'' \<and>
   totalOptimizedCost example_result \<noteq> Lit ''57,005.59'' \<and>
   grand_total (transport example_result) (tariffs example_result) (duty example_result)
     (tax example_result) = Num (8062776 / 139) \<and>
   999 < \<bar>8062776 / 139 - 57005.59 :: real\<bar>"
  by (simp add: example_run) (simp add: example_result_def grand_total_def)

text \<open>
  C2, amended: on the example input the engine returns adjusted distance 500, fuel cost
  8,992.81, driver cost 10000, rental cost 20000, transport subtotal 38,992.81, the
  tariff items handling 1500, inspection 500 and storage penalty 384 with tariff total
  2384, duty 10000, tariff subtotal 12384, VAT 5,848.92, WHT 779.86, total tax
  6,628.78 and the displayed grand total 58,005.58 (amounts that are not whole are
  shown as \<open>formatETB\<close> displays them).
\<close>

theorem end_to_end_example:
  "calculateTotalCost example_inputs = Inr example_result \<and>
   actualDistance (optimization example_result) = 500 \<and>
   formatETB (totalLitersUsed (transport example_result)) = Lit ''179.86'' \<and>
   formatETB (fuelCostETB (transport example_result)) = Lit ''8,992.81'' \<and>
   driverCostETB (transport example_result) = 10000 \<and>
   truckRentETB (transport example_result) = 20000 \<and>
   formatETB (totalTransportCost (transport example_result)) = Lit ''38,992.81'' \<and>
   map (\<lambda>b. (item_name b, cost b)) (breakdown (tariffs example_result)) =
     [(''Dry Port Handling'', 1500), (''Customs Inspection Fee'', 500),
      (''Storage Penalty'', 384)] \<and>
   totalTariffCost (tariffs example_result) = 2384 \<and>
   dutyCost (duty example_result) = 10000 \<and>
   totalTariffCost (tariffs example_result) + dutyCost (duty example_result) = 12384 \<and>
   formatETB (vatCost (tax example_result)) = Lit ''5,848.92'' \<and>
   formatETB (whtCost (tax example_result)) = Lit ''779.86'' \<and>
   formatETB (totalTax (tax example_result)) = Lit ''6,628.78'' \<and>
   totalOptimizedCost example_result = Lit ''58,005.58''"
  by (simp add: example_run) (simp add: example_result_def format_eval)

section \<open>Route optimization\<close>

text \<open>
  C3. For every input the orchestrator hands the Transport Calculator the original
  distance when there are fewer than three stops and the original distance times 0.90
  when there are three or more: its outcome, failure included, is the calculator's on
  that distance, and a returned result records that distance as the adjusted one.
\<close>

theorem route_optimization_distance:
  "(numStops inp < 3 \<longrightarrow>
      fst (route_optimization (distanceKm inp) (numStops inp)) = distanceKm inp) \<and>
   (numStops inp \<ge> 3 \<longrightarrow>
      fst (route_optimization (distanceKm inp) (numStops inp)) = distanceKm inp * 0.90) \<and>
   map_sum id transport (calculateTotalCost inp) =
     calculateTransportCost (fst (route_optimization (distanceKm inp) (numStops inp)))
       (truckType inp) (estimatedDays inp) (driverCost inp) (fuelPrice inp)
       (truckRentalCost inp) \<and>
   (\<forall>r. calculateTotalCost inp = Inr r \<longrightarrow>
      originalDistance (optimization r) = distanceKm inp \<and>
      actualDistance (optimization r) =
        (if numStops inp < 3 then distanceKm inp else distanceKm inp * 0.90))"
proof -
  have a: "numStops inp < 3 \<longrightarrow>
      fst (route_optimization (distanceKm inp) (numStops inp)) = distanceKm inp"
    by (simp add: route_optimization_def)
  have b: "numStops inp \<ge> 3 \<longrightarrow>
      fst (route_optimization (distanceKm inp) (numStops inp)) = distanceKm inp * 0.90"
    by (simp add: route_optimization_def OPTIMIZATION_DISCOUNT_def Let_def)
  have c: "map_sum id transport (calculateTotalCost inp) =
     calculateTransportCost (fst (route_optimization (distanceKm inp) (numStops inp)))
       (truckType inp) (estimatedDays inp) (driverCost inp) (fuelPrice inp)
       (truckRentalCost inp)"
    by (simp add: calculateTotalCost_def Let_def split: prod.splits sum.splits)
  have d: "\<forall>r. calculateTotalCost inp = Inr r \<longrightarrow>
      originalDistance (optimization r) = distanceKm inp \<and>
      actualDistance (optimization r) =
        (if numStops inp < 3 then distanceKm inp else distanceKm inp * 0.90)"
    using a b
    by (auto simp: calculateTotalCost_def Let_def split: prod.splits sum.splits)
  from a b c d show ?thesis by blast
qed

theorem route_optimization_distance_witness:
  "fst (route_optimization 500 3) = 450 \<and>
   fst (route_optimization 500 1) = 500 \<and>
   map_sum id transport (calculateTotalCost three_stop_inputs) =
     calculateTransportCost 450 ''40FT_DRY_VAN'' 10 1000 50 2000 \<and>
   actualDistance (optimization example_result) = 500"
  using route_optimization_distance [of three_stop_inputs]
    route_optimization_distance [of example_inputs] example_run
  by (simp add: three_stop_inputs_def example_inputs_def)

section \<open>The tariff schedule\<close>

lemma calculateTariffCost_breakdown:
  "breakdown (calculateTariffCost d e h i) =
     (let (c1, n1) = final_cost d e (DYNAMIC_TARIFFS h i ! 0);
          (c2, n2) = final_cost d e (DYNAMIC_TARIFFS h i ! 1);
          (c3, n3) = final_cost d e (DYNAMIC_TARIFFS h i ! 2)
      in (if c1 > 0 \<or> h > 0
          then [\<lparr>item_name = ''Dry Port Handling'', cost = c1, item_notes = n1\<rparr>] else []) @
         (if c2 > 0 \<or> i > 0
          then [\<lparr>item_name = ''Customs Inspection Fee'', cost = c2, item_notes = n2\<rparr>]
          else []) @
         [\<lparr>item_name = ''Storage Penalty'', cost = c3, item_notes = n3\<rparr>])"
  by (simp add: calculateTariffCost_def DYNAMIC_TARIFFS_def tariff_step_def clean_names
      split: prod.splits)

lemma storage_final_cost:
  "final_cost d e (DYNAMIC_TARIFFS h i ! 2) =
     (if d \<le> 8 then (0, [Lit ''No penalty: Trip completed within the free period.''])
      else ((d - 8) * 192,
            [Lit ''Penalty applied for '', ToString (d - 8), Lit '' days over the '',
             ToString 8, Lit ''-day free period.'']))"
  by (simp add: DYNAMIC_TARIFFS_def final_cost_def base_cost_def Let_def max_def)

text \<open>
  C4. For every input the last item of the tariff breakdown is the storage penalty. It
  costs 0, with the no-penalty note, when the estimated days are at most 8, and the
  days beyond 8 times 192 otherwise; so it is listed even at cost 0. The orchestrator
  passes the estimated days of the input, unchanged, to the Tariff Calculator.
\<close>

theorem storage_penalty:
  "breakdown (calculateTariffCost d e h i) \<noteq> [] \<and>
   last (breakdown (calculateTariffCost d e h i)) =
     \<lparr>item_name = ''Storage Penalty'',
      cost = (if d \<le> 8 then 0 else (d - 8) * 192.00),
      item_notes =
        (if d \<le> 8 then [Lit ''No penalty: Trip completed within the free period.'']
         else [Lit ''Penalty applied for '', ToString (d - 8), Lit '' days over the '',
               ToString 8, Lit ''-day free period.''])\<rparr> \<and>
   (\<forall>r. calculateTotalCost inp = Inr r \<longrightarrow>
      tariffs r = calculateTariffCost (estimatedDays inp) (isExport inp) (handlingCost inp)
                    (inspectionFee inp))"
proof -
  have "\<forall>r. calculateTotalCost inp = Inr r \<longrightarrow>
      tariffs r = calculateTariffCost (estimatedDays inp) (isExport inp) (handlingCost inp)
                    (inspectionFee inp)"
    by (simp add: calculateTotalCost_Inr(2))
  moreover have "breakdown (calculateTariffCost d e h i) \<noteq> []"
    by (simp add: calculateTariffCost_breakdown split: prod.splits)
  moreover have "last (breakdown (calculateTariffCost d e h i)) =
     \<lparr>item_name = ''Storage Penalty'',
      cost = (if d \<le> 8 then 0 else (d - 8) * 192.00),
      item_notes =
        (if d \<le> 8 then [Lit ''No penalty: Trip completed within the free period.'']
         else [Lit ''Penalty applied for '', ToString (d - 8), Lit '' days over the '',
               ToString 8, Lit ''-day free period.''])\<rparr>"
    by (simp add: calculateTariffCost_breakdown storage_final_cost split: prod.splits)
  ultimately show ?thesis by blast
qed

theorem storage_penalty_witness:
  "last (breakdown (calculateTariffCost 10 False 1500 500)) =
     \<lparr>item_name = ''Storage Penalty'', cost = 384,
      item_notes = [Lit ''Penalty applied for '', ToString 2, Lit '' days over the '',
                    ToString 8, Lit ''-day free period.'']\<rparr> \<and>
   last (breakdown (calculateTariffCost 8 True 0 0)) =
     \<lparr>item_name = ''Storage Penalty'', cost = 0,
      item_notes = [Lit ''No penalty: Trip completed within the free period.'']\<rparr> \<and>
   tariffs example_result = calculateTariffCost 10 False 1500 500"
  using storage_penalty [of 10 False 1500 500 example_inputs]
    storage_penalty [of 8 True 0 0 example_inputs] example_run
  by (simp add: example_inputs_def)

text \<open>
  C5. With the export flag set, the handling fee, which is the only export-eligible
  rule of the three, has final cost equal to its base cost times 0.40 (exactly, hence
  within 1e-9), and the inspection fee and the storage penalty keep their base cost;
  without the flag every rule keeps its base cost. For positive handling and
  inspection rates the costs listed in the breakdown are these final costs.
\<close>

theorem export_discount:
  "map is_export_eligible (DYNAMIC_TARIFFS h i) = [True, False, False] \<and>
   (\<forall>t \<in> set (DYNAMIC_TARIFFS h i).
      fst (final_cost d True t) =
        (if is_export_eligible t then fst (base_cost d t) * 0.40 else fst (base_cost d t)) \<and>
      (is_export_eligible t \<longrightarrow>
         \<bar>fst (final_cost d True t) - fst (base_cost d t) * 0.40\<bar> \<le> 1 / 10 ^ 9) \<and>
      fst (final_cost d False t) = fst (base_cost d t)) \<and>
   map (\<lambda>t. fst (base_cost d t)) (DYNAMIC_TARIFFS h i) =
     [h, i, if d \<le> 8 then 0 else (d - 8) * 192] \<and>
   (0 < h \<and> 0 < i \<longrightarrow>
      map cost (breakdown (calculateTariffCost d True h i)) =
        [h * 0.40, i, if d \<le> 8 then 0 else (d - 8) * 192] \<and>
      map cost (breakdown (calculateTariffCost d False h i)) =
        [h, i, if d \<le> 8 then 0 else (d - 8) * 192])"
proof -
  have a: "map is_export_eligible (DYNAMIC_TARIFFS h i) = [True, False, False]"
    by (simp add: DYNAMIC_TARIFFS_def)
  have b: "\<forall>t \<in> set (DYNAMIC_TARIFFS h i).
      fst (final_cost d True t) =
        (if is_export_eligible t then fst (base_cost d t) * 0.40 else fst (base_cost d t)) \<and>
      (is_export_eligible t \<longrightarrow>
         \<bar>fst (final_cost d True t) - fst (base_cost d t) * 0.40\<bar> \<le> 1 / 10 ^ 9) \<and>
      fst (final_cost d False t) = fst (base_cost d t)"
    by (simp add: final_cost_def EXPORT_DISCOUNT_FACTOR_def split: prod.splits)
  have c: "map (\<lambda>t. fst (base_cost d t)) (DYNAMIC_TARIFFS h i) =
      [h, i, if d \<le> 8 then 0 else (d - 8) * 192]"
    by (simp add: DYNAMIC_TARIFFS_def base_cost_def Let_def max_def)
  have e: "0 < h \<and> 0 < i \<longrightarrow>
      map cost (breakdown (calculateTariffCost d True h i)) =
        [h * 0.40, i, if d \<le> 8 then 0 else (d - 8) * 192]"
    by (simp add: calculateTariffCost_breakdown storage_final_cost split: prod.splits)
      (simp add: DYNAMIC_TARIFFS_def final_cost_def base_cost_def EXPORT_DISCOUNT_FACTOR_def)
  have f: "0 < h \<and> 0 < i \<longrightarrow>
      map cost (breakdown (calculateTariffCost d False h i)) =
        [h, i, if d \<le> 8 then 0 else (d - 8) * 192]"
    by (simp add: calculateTariffCost_breakdown storage_final_cost split: prod.splits)
      (simp add: DYNAMIC_TARIFFS_def final_cost_def base_cost_def)
  from a b c e f show ?thesis by blast
qed

theorem export_discount_witness:
  "map (\<lambda>t. fst (final_cost 10 True t)) (DYNAMIC_TARIFFS 1500 500) = [600, 500, 384] \<and>
   map (\<lambda>t. fst (final_cost 10 False t)) (DYNAMIC_TARIFFS 1500 500) = [1500, 500, 384] \<and>
   map cost (breakdown (calculateTariffCost 10 True 1500 500)) = [600, 500, 384] \<and>
   map cost (breakdown (calculateTariffCost 10 False 1500 500)) = [1500, 500, 384]"
proof -
  note w = export_discount [of 1500 500 10]
  from w have b: "\<forall>t \<in> set (DYNAMIC_TARIFFS 1500 500).
      fst (final_cost 10 True t) =
        (if is_export_eligible t then fst (base_cost 10 t) * 0.40 else fst (base_cost 10 t)) \<and>
      (is_export_eligible t \<longrightarrow>
         \<bar>fst (final_cost 10 True t) - fst (base_cost 10 t) * 0.40\<bar> \<le> 1 / 10 ^ 9) \<and>
      fst (final_cost 10 False t) = fst (base_cost 10 t)"
    by blast
  have fc: "map (\<lambda>t. fst (final_cost 10 True t)) (DYNAMIC_TARIFFS 1500 500) =
      map (\<lambda>t. if is_export_eligible t then fst (base_cost 10 t) * 0.40
                else fst (base_cost 10 t)) (DYNAMIC_TARIFFS 1500 500)"
    by (rule map_cong [OF refl]) (use b in blast)
  have fd: "map (\<lambda>t. fst (final_cost 10 False t)) (DYNAMIC_TARIFFS 1500 500) =
      map (\<lambda>t. fst (base_cost 10 t)) (DYNAMIC_TARIFFS 1500 500)"
    by (rule map_cong [OF refl]) (use b in blast)
  have "map (\<lambda>t. fst (final_cost 10 True t)) (DYNAMIC_TARIFFS 1500 500) = [600, 500, 384]"
    unfolding fc by (simp add: DYNAMIC_TARIFFS_def base_cost_def)
  moreover have
    "map (\<lambda>t. fst (final_cost 10 False t)) (DYNAMIC_TARIFFS 1500 500) = [1500, 500, 384]"
    unfolding fd by (simp add: DYNAMIC_TARIFFS_def base_cost_def)
  moreover have "map cost (breakdown (calculateTariffCost 10 True 1500 500)) = [600, 500, 384]"
    using w by simp
  moreover have
    "map cost (breakdown (calculateTariffCost 10 False 1500 500)) = [1500, 500, 384]"
    using w by simp
  ultimately show ?thesis by blast
qed

section \<open>Transport cost, customs duty and tax\<close>

lemma export_run: "calculateTotalCost export_inputs = Inr export_result"
  by (simp add: export_inputs_def example_inputs_def export_result_def engine_eval)

lemma fuel_efficiency_nonzero:
  assumes "TRUCK_PROFILES ty = Profile p"
  shows "fuel_efficiency_km_l p \<noteq> 0"
  using assms by (auto simp: TRUCK_PROFILES_def split: if_splits)

text \<open>
  C6. For a truck type with a profile in the table the Transport Calculator returns:
  the days charged are \<open>max 1 estimatedDays\<close>, so a day count of zero or less is
  charged as one day; the fuel consumed is the distance divided by the profile's fuel
  efficiency, the fuel cost that times the fuel price, the driver and rental costs the
  days charged times the daily wage and the daily rental rate, and the total the sum
  of the three costs.
\<close>

theorem transport_cost:
  assumes "TRUCK_PROFILES ty = Profile p"
  shows "calculateTransportCost km ty days wage price rent =
           Inr \<lparr>fuelCostETB = Num (km / fuel_efficiency_km_l p * price),
                driverCostETB = max 1 days * wage,
                truckRentETB = max 1 days * rent,
                totalTransportCost =
                  Num (km / fuel_efficiency_km_l p * price + max 1 days * wage +
                       max 1 days * rent),
                totalLitersUsed = Num (km / fuel_efficiency_km_l p)\<rparr> \<and>
         (days \<le> 0 \<longrightarrow> max 1 days * wage = wage \<and> max 1 days * rent = rent) \<and>
         fuel_efficiency_km_l p \<noteq> 0"
  using assms fuel_efficiency_nonzero [OF assms]
  by (simp add: calculateTransportCost_def Let_def max_def)

theorem transport_cost_witness:
  "TRUCK_PROFILES ''40FT_REEFER'' =
     Profile \<lparr>fuel_efficiency_km_l = 2.5, capacity_teu = 2, type = ''Refrigerated Cargo''\<rparr> \<and>
   calculateTransportCost 500 ''40FT_REEFER'' 0 1000 50 2000 =
     Inr \<lparr>fuelCostETB = Num 10000, driverCostETB = 1000, truckRentETB = 2000,
          totalTransportCost = Num 13000, totalLitersUsed = Num 200\<rparr>"
proof -
  have p: "TRUCK_PROFILES ''40FT_REEFER'' =
     Profile \<lparr>fuel_efficiency_km_l = 2.5, capacity_teu = 2, type = ''Refrigerated Cargo''\<rparr>"
    by (simp add: TRUCK_PROFILES_def)
  from transport_cost [OF p, of 500 0 1000 50 2000] p show ?thesis by simp
qed

text \<open>
  C7. The duty is 0, with the fixed import-only note, when the cargo is an export or
  the duty rate is not positive; otherwise it is the CIF value times the rate over
  100, and the note carries the formatted CIF value and the rate. An export pays no
  duty whatever the rate and the value.
\<close>

theorem customs_duty:
  "calculateCustomsDuty cif rate ex =
     (if ex \<or> rate \<le> 0
      then \<lparr>dutyCost = 0,
            dutyNotes = [Lit ''Customs Duty applies only to Import/Local cargo.'']\<rparr>
      else \<lparr>dutyCost = cif * (rate / 100),
            dutyNotes = [Lit ''Calculated on CIF Value ('', formatETB (Num cif),
                         Lit '' ETB) at '', ToString rate, Lit ''%.'']\<rparr>) \<and>
   dutyCost (calculateCustomsDuty cif rate True) = 0"
  by (simp add: calculateCustomsDuty_def Let_def)

theorem customs_duty_witness:
  "calculateCustomsDuty 100000 10 False =
     \<lparr>dutyCost = 10000,
      dutyNotes = [Lit ''Calculated on CIF Value ('', Lit ''100,000.00'', Lit '' ETB) at '',
                   ToString 10, Lit ''%.'']\<rparr> \<and>
   calculateCustomsDuty 100000 10 True =
     \<lparr>dutyCost = 0, dutyNotes = [Lit ''Customs Duty applies only to Import/Local cargo.'']\<rparr> \<and>
   calculateCustomsDuty 100000 0 False =
     \<lparr>dutyCost = 0, dutyNotes = [Lit ''Customs Duty applies only to Import/Local cargo.'']\<rparr>"
  using customs_duty [of 100000 10 False] customs_duty [of 100000 10 True]
    customs_duty [of 100000 0 False]
  by (simp add: format_eval)

text \<open>
  C8. The tax of a returned result is computed from the transport subtotal alone: VAT
  is the subtotal times the VAT rate over 100 and WHT the subtotal times the WHT rate
  over 100. Two inputs that agree on distance, truck type, days, stops, driver cost,
  fuel price, rental cost and both tax rates get the same tax result, whatever their
  tariff and duty inputs are.
\<close>

theorem tax_base_noninterference:
  assumes "calculateTotalCost a = Inr ra" and "calculateTotalCost b = Inr rb"
    and "distanceKm a = distanceKm b" and "truckType a = truckType b"
    and "estimatedDays a = estimatedDays b" and "numStops a = numStops b"
    and "driverCost a = driverCost b" and "fuelPrice a = fuelPrice b"
    and "truckRentalCost a = truckRentalCost b"
    and "vatRate a = vatRate b" and "whtRate a = whtRate b"
  shows "tax ra = tax rb \<and>
         vatCost (tax ra) = jmul (totalTransportCost (transport ra)) (Num (vatRate a / 100)) \<and>
         whtCost (tax ra) = jmul (totalTransportCost (transport ra)) (Num (whtRate a / 100))"
proof -
  note pa = calculateTotalCost_Inr [OF assms(1)]
  note pb = calculateTotalCost_Inr [OF assms(2)]
  have "Inr (transport ra) = (Inr (transport rb) :: error + transport_result)"
    using pa(1) pb(1) assms(3-9) by simp
  then have t: "transport ra = transport rb" by simp
  have "tax ra = tax rb"
    unfolding pa(4) pb(4) using t assms(10,11) by simp
  moreover have
    "vatCost (tax ra) = jmul (totalTransportCost (transport ra)) (Num (vatRate a / 100))"
    unfolding pa(4) by (simp add: calculateTaxCost_def Let_def)
  moreover have
    "whtCost (tax ra) = jmul (totalTransportCost (transport ra)) (Num (whtRate a / 100))"
    unfolding pa(4) by (simp add: calculateTaxCost_def Let_def)
  ultimately show ?thesis by blast
qed

theorem tax_base_noninterference_witness:
  "calculateTotalCost example_inputs = Inr example_result \<and>
   calculateTotalCost export_inputs = Inr export_result \<and>
   tariffs example_result \<noteq> tariffs export_result \<and>
   duty example_result \<noteq> duty export_result \<and>
   tax example_result = tax export_result \<and>
   vatCost (tax example_result) = Num (813000 / 139) \<and>
   whtCost (tax example_result) = Num (108400 / 139)"
proof -
  have "tax example_result = tax export_result \<and>
      vatCost (tax example_result) =
        jmul (totalTransportCost (transport example_result)) (Num (vatRate example_inputs / 100)) \<and>
      whtCost (tax example_result) =
        jmul (totalTransportCost (transport example_result)) (Num (whtRate example_inputs / 100))"
    by (rule tax_base_noninterference [OF example_run export_run])
      (simp_all add: export_inputs_def example_inputs_def)
  then show ?thesis
    by (simp add: example_run export_run)
      (simp add: example_result_def export_result_def example_inputs_def)
qed

section \<open>Truck types without a profile\<close>

text \<open>
  C9, as stated: every truck type without a profile makes the Transport Calculator
  fail. The type \<^verbatim>\<open>toString\<close> has no profile, yet the calculator returns, with \<open>NaN\<close>
  as fuel cost and total; the orchestrator returns too, displays the total as 0.00,
  and the caller reports a result, not an error.
\<close>

theorem unknown_truck_type_counterexample:
  "TRUCK_PROFILES ''toString'' = Inherited \<and>
   calculateTransportCost 500 ''toString'' 10 1000 50 2000 =
     Inr \<lparr>fuelCostETB = NaN, driverCostETB = 10000, truckRentETB = 20000,
          totalTransportCost = NaN, totalLitersUsed = NaN\<rparr> \<and>
   map_sum id (\<lambda>r. (totalOptimizedCost r, totalTransportCost (transport r), totalTax (tax r)))
     (calculateTotalCost inherited_name_inputs) = Inr (Lit ''0.00'', NaN, NaN) \<and>
   handleCalculation inherited_name_inputs \<noteq> CriticalError TypeError"
  by (simp add: inherited_name_inputs_def example_inputs_def handleCalculation_def engine_eval)

text \<open>
  C9, amended: for a truck type that is neither a key of the profile table nor a name
  inherited from \<^verbatim>\<open>Object.prototype\<close>, the Transport Calculator fails with a
  \<^verbatim>\<open>TypeError\<close>; the orchestrator fails with the same error and returns no result, and
  the caller, on an input that passes its validation, receives that error.
\<close>

theorem unknown_truck_type:
  assumes "ty \<notin> {''40FT_DRY_VAN'', ''40FT_REEFER'', ''15MT_FLATBED''}"
    and "ty \<notin> set object_prototype_names"
  shows "calculateTransportCost km ty days wage price rent = Inl TypeError \<and>
         (truckType inp = ty \<longrightarrow>
            calculateTotalCost inp = Inl TypeError \<and>
            (0 < distanceKm inp \<and> 0 < estimatedDays inp \<and> 1 \<le> numStops inp \<longrightarrow>
               handleCalculation inp = CriticalError TypeError))"
proof -
  from assms have u: "TRUCK_PROFILES ty = Undefined"
    by (simp add: TRUCK_PROFILES_def)
  then have t: "calculateTransportCost k ty d w p r = Inl TypeError" for k d w p r
    by (simp add: calculateTransportCost_def)
  have "calculateTotalCost inp = Inl TypeError" if "truckType inp = ty"
    using that t by (simp add: calculateTotalCost_def split: prod.splits)
  then show ?thesis
    using t by (auto simp: handleCalculation_def)
qed

theorem unknown_truck_type_witness:
  "calculateTransportCost 500 ''50FT_TANKER'' 10 1000 50 2000 = Inl TypeError \<and>
   calculateTotalCost unknown_truck_inputs = Inl TypeError \<and>
   handleCalculation unknown_truck_inputs = CriticalError TypeError"
  using unknown_truck_type [of "''50FT_TANKER''" 500 10 1000 50 2000 unknown_truck_inputs]
  by (simp add: unknown_truck_inputs_def example_inputs_def object_prototype_names_def)

section \<open>The displayed total\<close>































end
